theory Spec2Isabelle
  imports Main
begin

unbundle bit_operations_syntax

section \<open>The web frontend of the game server: \<^verbatim>\<open>blueprints/frontend.py\<close>\<close>

text \<open>
  The module is a set of route handlers over a relational store, a per-client session and
  a process-wide credential cache. Each handler is embedded as a function from the state
  it reads (configuration, store, cache, session, request data) to the response it returns
  and the state it leaves. The libraries the handlers call (md5, bcrypt, the geolocation
  table, the helper \<^verbatim>\<open>get_safe_name\<close>, the privilege constants, the markdown converter,
  the store's evaluation of an interpolated SQL condition) are not part of the file; they
  are fields of an environment record that every handler takes.

  A Python \<^verbatim>\<open>str\<close> is modelled as a \<^typ>\<open>string\<close>, one \<^typ>\<open>char\<close> for each code point
  below 256; \<^verbatim>\<open>len\<close> is \<^const>\<open>length\<close>. A request form is modelled with its fields
  present. The calls to \<^verbatim>\<open>log\<close> under \<^verbatim>\<open>glob.config.debug\<close> and the timing of a login
  only print diagnostics and are left out, except in \<^verbatim>\<open>logout\<close>, where building
  the log line reads the session and can raise.
\<close>

subsection \<open>Strings and the two regular expressions\<close>

definition in_range :: "char \<Rightarrow> nat \<Rightarrow> nat \<Rightarrow> bool" where
  "in_range c lo hi = (lo \<le> of_char c \<and> (of_char c :: nat) \<le> hi)"

text \<open>\<^verbatim>\<open>str.lower\<close> on the code points below 256: the ASCII capitals and the capitals
  \<^verbatim>\<open>0xC0..0xDE\<close> other than the multiplication sign \<^verbatim>\<open>0xD7\<close> move up by 32.\<close>

definition lower_char :: "char \<Rightarrow> char" where
  "lower_char c =
     (if in_range c 65 90 \<or> in_range c 192 214 \<or> in_range c 216 222
      then char_of (of_char c + (32 :: nat)) else c)"

definition lower :: "string \<Rightarrow> string" where
  "lower s = map lower_char s"

text \<open>The class \<^verbatim>\<open>\w\<close> of a \<^verbatim>\<open>str\<close> pattern: alphanumeric code points and the
  underscore.\<close>

definition is_word :: "char \<Rightarrow> bool" where
  "is_word c =
     (in_range c 48 57 \<or> in_range c 65 90 \<or> c = CHR ''_'' \<or> in_range c 97 122 \<or>
      in_range c 170 170 \<or> in_range c 178 179 \<or> in_range c 181 181 \<or>
      in_range c 185 186 \<or> in_range c 188 190 \<or> in_range c 192 214 \<or>
      in_range c 216 246 \<or> in_range c 248 255)"

text \<open>The class \<^verbatim>\<open>\s\<close>.\<close>

definition is_space :: "char \<Rightarrow> bool" where
  "is_space c =
     (in_range c 9 13 \<or> in_range c 28 32 \<or> in_range c 133 133 \<or> in_range c 160 160)"

text \<open>A final \<^verbatim>\<open>$\<close> matches at the end of the string and also just before a newline
  that ends the string. Neither pattern admits a newline in its last class, so the text
  the pattern has to cover is the string without one trailing newline.\<close>

definition strip_final_newline :: "string \<Rightarrow> string" where
  "strip_final_newline s = (if s \<noteq> [] \<and> last s = CHR 0x0A then butlast s else s)"

text \<open>\<^verbatim>\<open>_username_rgx = re.compile(r'^[\w \[\]-]{2,15}$')\<close>\<close>

definition username_char :: "char \<Rightarrow> bool" where
  "username_char c =
     (is_word c \<or> c = CHR '' '' \<or> c = CHR ''['' \<or> c = CHR '']'' \<or> c = CHR ''-'')"

definition username_rgx_match :: "string \<Rightarrow> bool" where
  "username_rgx_match s =
     (let body = strip_final_newline s
      in 2 \<le> length body \<and> length body \<le> 15 \<and> list_all username_char body)"

text \<open>\<^verbatim>\<open>_email_rgx = re.compile(r'^[^@\s]{1,200}@[^@\s\.]{1,30}\.[^@\.\s]{1,24}$')\<close>.
  The first class excludes \<^verbatim>\<open>@\<close>, so the local part is the text before the first
  \<^verbatim>\<open>@\<close>; the second class excludes the dot, so the domain label is the text up to the
  next dot; the rest, without one trailing newline, is the last label.\<close>

definition email_local_char :: "char \<Rightarrow> bool" where
  "email_local_char c = (c \<noteq> CHR ''@'' \<and> \<not> is_space c)"

definition email_label_char :: "char \<Rightarrow> bool" where
  "email_label_char c = (c \<noteq> CHR ''@'' \<and> \<not> is_space c \<and> c \<noteq> CHR ''.'')"

definition email_rgx_match :: "string \<Rightarrow> bool" where
  "email_rgx_match s =
     (let local = takeWhile (\<lambda>c. c \<noteq> CHR ''@'') s;
          rest = dropWhile (\<lambda>c. c \<noteq> CHR ''@'') s;
          domain = takeWhile (\<lambda>c. c \<noteq> CHR ''.'') (tl rest);
          rest' = dropWhile (\<lambda>c. c \<noteq> CHR ''.'') (tl rest);
          tld = strip_final_newline (tl rest')
      in 1 \<le> length local \<and> length local \<le> 200 \<and> list_all email_local_char local \<and>
         rest \<noteq> [] \<and>
         1 \<le> length domain \<and> length domain \<le> 30 \<and> list_all email_label_char domain \<and>
         rest' \<noteq> [] \<and>
         1 \<le> length tld \<and> length tld \<le> 24 \<and> list_all email_label_char tld)"

subsection \<open>Data model\<close>

text \<open>Exceptions that leave a handler.\<close>

datatype py_error = NameError | KeyError | DatabaseError | OSError

text \<open>A row of the \<^verbatim>\<open>users\<close> table, with the columns the module reads or writes.\<close>

record user_row =
  u_id :: int
  u_name :: string
  u_safe_name :: string
  u_email :: string
  u_pw_bcrypt :: string
  u_priv :: int
  u_country :: string
  u_silence_end :: int
  u_creation_time :: int
  u_latest_activity :: int

text \<open>The store \<^verbatim>\<open>glob.db\<close>: the two tables in insertion order, the counter that
  numbers a new \<^verbatim>\<open>users\<close> row, and the defaults of the columns an \<^verbatim>\<open>INSERT\<close> of this
  module leaves out. A row of \<^verbatim>\<open>stats\<close> is written with its \<^verbatim>\<open>id\<close> only.\<close>

record database =
  users :: "user_row list"
  stats :: "int list"
  auto_increment :: int
  default_priv :: int
  default_silence_end :: int

record configuration =
  debug :: bool
  registration :: bool
  disallowed_names :: "string list"
  disallowed_passwords :: "string list"
  discord_server :: string

text \<open>\<^verbatim>\<open>glob\<close>: configuration, store and \<^verbatim>\<open>glob.cache['bcrypt']\<close>, the dictionary from
  a bcrypt hash to the md5 digest that verified against it.\<close>

record glob =
  config :: configuration
  db :: database
  cache_bcrypt :: "string \<rightharpoonup> string"

text \<open>The session dictionary: the two keys the module uses, each present or absent.\<close>

record session_user =
  ud_id :: int
  ud_name :: string
  ud_priv :: int
  ud_silence_end :: int
  ud_is_staff :: int

record session =
  authenticated :: "bool option"
  user_data :: "session_user option"

record form =
  username :: string
  email :: string
  password :: string

record args =
  mode :: "string option"
  mods :: "string option"

text \<open>What the handlers call outside the module, as it answers during one request.
  \<^verbatim>\<open>md5_hexdigest s\<close> stands for \<^verbatim>\<open>hashlib.md5(s.encode()).hexdigest().encode()\<close>;
  \<^verbatim>\<open>geolite2_lookup\<close> gives the country of the match, if there is a match;
  \<^verbatim>\<open>sql_id_condition user\<close> is the store's reading of the condition
  \<^verbatim>\<open>id = {user}\<close> that \<^verbatim>\<open>profile\<close> builds by interpolation, \<^const>\<open>None\<close> when the store
  rejects the statement.\<close>

record env =
  md5_hexdigest :: "string \<Rightarrow> string"
  checkpw :: "string \<Rightarrow> string \<Rightarrow> bool"
  hashpw :: "string \<Rightarrow> string \<Rightarrow> string"
  gensalt :: string
  get_safe_name :: "string \<Rightarrow> string"
  geolite2_lookup :: "string \<Rightarrow> string option"
  unix_timestamp :: int
  Privileges_Normal :: int
  Privileges_Verified :: int
  Privileges_Staff :: int
  markdown_path :: "string \<Rightarrow> py_error + string"
  capitalize :: "string \<Rightarrow> string"
  sql_id_condition :: "string \<Rightarrow> (user_row \<Rightarrow> bool) option"

text \<open>The row \<^verbatim>\<open>SELECT name, id, priv, country\<close> returns.\<close>

record profile_row =
  p_name :: string
  p_id :: int
  p_priv :: int
  p_country :: string

datatype ctx_value = Str string | Row profile_row

text \<open>What a handler returns: a rendered template with its context, a flash message
  (status, message, target surface), a raw byte payload, a redirect, or an exception.\<close>

datatype response =
    Render_template string "(string \<times> ctx_value) list"
  | Flash string string string
  | Payload string
  | Redirect string
  | Raise py_error

text \<open>The result of a handler that may change state. \<^verbatim>\<open>r_checkpw\<close> counts the calls
  of \<^verbatim>\<open>bcrypt.checkpw\<close> the handler made.\<close>

record result =
  r_response :: response
  r_session :: session
  r_glob :: glob
  r_checkpw :: nat

definition valid_modes :: "string set" where
  "valid_modes = {''std'', ''taiko'', ''catch'', ''mania''}"

definition valid_mods :: "string set" where
  "valid_mods = {''vn'', ''rx'', ''ap''}"

definition valid_sorts :: "string set" where
  "valid_sorts = {''tscore'', ''rscore'', ''pp'', ''plays'', ''playtime'', ''acc'', ''maxcombo''}"

subsection \<open>The store's operations\<close>

text \<open>\<^verbatim>\<open>glob.db.fetch\<close> returns the first row the condition selects, or nothing.\<close>

definition fetch_by_safe_name :: "database \<Rightarrow> string \<Rightarrow> user_row option" where
  "fetch_by_safe_name d sn = find (\<lambda>u. u_safe_name u = sn) (users d)"

definition fetch_by_name :: "database \<Rightarrow> string \<Rightarrow> user_row option" where
  "fetch_by_name d n = find (\<lambda>u. u_name u = n) (users d)"

definition fetch_by_email :: "database \<Rightarrow> string \<Rightarrow> user_row option" where
  "fetch_by_email d e = find (\<lambda>u. u_email u = e) (users d)"

definition profile_columns :: "user_row \<Rightarrow> profile_row" where
  "profile_columns u =
     \<lparr>p_name = u_name u, p_id = u_id u, p_priv = u_priv u, p_country = u_country u\<rparr>"

text \<open>\<^verbatim>\<open>INSERT INTO users (name, safe_name, email, pw_bcrypt, country, creation_time,
  latest_activity)\<close>: the new row takes the next id, which \<^verbatim>\<open>execute\<close> returns.\<close>

definition insert_user ::
  "database \<Rightarrow> string \<Rightarrow> string \<Rightarrow> string \<Rightarrow> string \<Rightarrow> string \<Rightarrow> int \<Rightarrow> int \<times> database" where
  "insert_user d nm sn em h c t =
     (auto_increment d,
      d\<lparr>users := users d @
           [\<lparr>u_id = auto_increment d, u_name = nm, u_safe_name = sn,
             u_email = em, u_pw_bcrypt = h, u_priv = default_priv d,
             u_country = c, u_silence_end = default_silence_end d,
             u_creation_time = t, u_latest_activity = t\<rparr>],
         auto_increment := auto_increment d + 1\<rparr>)"

definition insert_stats :: "database \<Rightarrow> int \<Rightarrow> database" where
  "insert_stats d user_id = d\<lparr>stats := stats d @ [user_id]\<rparr>"

subsection \<open>The handlers\<close>

text \<open>\<^verbatim>\<open>GET /\<close>, \<^verbatim>\<open>GET /home\<close>\<close>

definition home :: response where
  "home = Render_template ''home.html'' []"

text \<open>\<^verbatim>\<open>GET /settings\<close>\<close>

definition settings :: "session \<Rightarrow> response" where
  "settings s =
     (if authenticated s = None
      then Flash ''error'' ''You must be logged in to access user settings!'' ''login''
      else Render_template ''settings.html'' [])"

text \<open>\<^verbatim>\<open>GET /u/<user>\<close>. A query value that is absent or empty is falsy and takes its
  default. The condition of the not-found page is a disjunction that Python evaluates
  from the left: \<^verbatim>\<open>session['user_data']\<close> is read only when the row exists, its
  \<^verbatim>\<open>priv\<close> is below 3 and the session has the key \<^verbatim>\<open>authenticated\<close>; reading it
  from a session without that key raises \<^verbatim>\<open>KeyError\<close>.\<close>

definition profile :: "env \<Rightarrow> glob \<Rightarrow> session \<Rightarrow> args \<Rightarrow> string \<Rightarrow> response" where
  "profile E g s a user =
     (case (case mods a of
              None \<Rightarrow> Inr ''vn''
            | Some v \<Rightarrow> if v = [] then Inr ''vn''
                        else if v \<in> valid_mods then Inr v
                        else Inl (Payload ''invalid mods! (vn, rx, ap)'')) of
        Inl r \<Rightarrow> r
      | Inr mods' \<Rightarrow>
       (case (case mode a of
                None \<Rightarrow> Inr ''std''
              | Some v \<Rightarrow> if v = [] then Inr ''std''
                          else if v \<in> valid_modes then Inr v
                          else Inl (Payload ''invalid mode! (std, taiko, catch, mania)'')) of
          Inl r \<Rightarrow> r
        | Inr mode' \<Rightarrow>
         (case sql_id_condition E user of
            None \<Rightarrow> Raise DatabaseError
          | Some cond \<Rightarrow>
           (case map_option profile_columns (find cond (users (db g))) of
              None \<Rightarrow> Render_template ''404.html'' []
            | Some userdata \<Rightarrow>
                if p_priv userdata < 3 \<and> authenticated s = None
                then Render_template ''404.html'' []
                else if p_priv userdata < 3
                then (case user_data s of
                        None \<Rightarrow> Raise KeyError
                      | Some ud \<Rightarrow>
                          if ud_priv ud AND Privileges_Staff E = 0
                          then Render_template ''404.html'' []
                          else Render_template ''profile.html''
                                 [(''user'', Row userdata), (''mode'', Str mode'),
                                  (''mods'', Str mods')])
                else Render_template ''profile.html''
                       [(''user'', Row userdata), (''mode'', Str mode'),
                        (''mods'', Str mods')]))))"

text \<open>\<^verbatim>\<open>GET /leaderboard\<close> and \<^verbatim>\<open>GET /leaderboard/<mode>/<sort>/<mods>\<close>\<close>

definition leaderboard_nodata :: response where
  "leaderboard_nodata =
     Render_template ''leaderboard.html''
       [(''mode'', Str ''std''), (''sort'', Str ''pp''), (''mods'', Str ''vn'')]"

definition leaderboard :: "string \<Rightarrow> string \<Rightarrow> string \<Rightarrow> response" where
  "leaderboard m srt md =
     Render_template ''leaderboard.html''
       [(''mode'', Str m), (''sort'', Str srt), (''mods'', Str md)]"

text \<open>\<^verbatim>\<open>GET /login\<close>\<close>

definition login :: "session \<Rightarrow> response" where
  "login s =
     (if authenticated s \<noteq> None
      then (case user_data s of
              None \<Rightarrow> Raise KeyError
            | Some ud \<Rightarrow>
                Flash ''error'' (''Hey! You're already logged in '' @ ud_name ud @ ''!'')
                  ''home'')
      else Render_template ''login.html'' [])"

text \<open>\<^verbatim>\<open>POST /login\<close>, from the check of the privilege bits on (lines 134 to 164), with
  the state and the count of verifications the password check has left.\<close>

definition login_post_checked ::
  "env \<Rightarrow> glob \<Rightarrow> session \<Rightarrow> form \<Rightarrow> user_row \<Rightarrow> nat \<Rightarrow> result" where
  "login_post_checked E g s f user_info n =
     (if u_priv user_info AND Privileges_Verified E = 0
      then \<lparr>r_response = Render_template ''verify.html'' [],
            r_session = s, r_glob = g, r_checkpw = n\<rparr>
      else if u_priv user_info AND Privileges_Normal E = 0
      then \<lparr>r_response = Flash ''error'' ''You are banned!'' ''login'',
            r_session = s, r_glob = g, r_checkpw = n\<rparr>
      else \<lparr>r_response =
              Flash ''success'' (''Hey! Welcome back '' @ username f @ ''!'') ''home'',
            r_session = s\<lparr>authenticated := Some True,
              user_data := Some \<lparr>ud_id = u_id user_info, ud_name = u_name user_info,
                ud_priv = u_priv user_info, ud_silence_end = u_silence_end user_info,
                ud_is_staff = u_priv user_info AND Privileges_Staff E\<rparr>\<rparr>,
            r_glob = g, r_checkpw = n\<rparr>)"

text \<open>\<^verbatim>\<open>POST /login\<close>\<close>

definition login_post :: "env \<Rightarrow> glob \<Rightarrow> session \<Rightarrow> form \<Rightarrow> result" where
  "login_post E g s f =
     (if authenticated s \<noteq> None
      then \<lparr>r_response =
              (case user_data s of
                 None \<Rightarrow> Raise KeyError
               | Some ud \<Rightarrow>
                   Flash ''error'' (''Hey! You're already logged in '' @ ud_name ud @ ''!'')
                     ''home''),
            r_session = s, r_glob = g, r_checkpw = 0\<rparr>
      else
       (case fetch_by_safe_name (db g) (get_safe_name E (username f)) of
          None \<Rightarrow>
            \<lparr>r_response = Flash ''error'' ''Account does not exist.'' ''login'',
             r_session = s, r_glob = g, r_checkpw = 0\<rparr>
        | Some user_info \<Rightarrow>
            if u_id user_info = 1
            then \<lparr>r_response = Flash ''error'' ''Account does not exist.'' ''login'',
                  r_session = s, r_glob = g, r_checkpw = 0\<rparr>
            else
              let bcrypt_cache = cache_bcrypt g;
                  pw_bcrypt = u_pw_bcrypt user_info;
                  pw_md5 = md5_hexdigest E (password f)
              in (case bcrypt_cache pw_bcrypt of
                    Some d \<Rightarrow>
                      if pw_md5 \<noteq> d
                      then \<lparr>r_response = Flash ''error'' ''Password is incorrect.'' ''login'',
                            r_session = s, r_glob = g, r_checkpw = 0\<rparr>
                      else login_post_checked E g s f user_info 0
                  | None \<Rightarrow>
                      if \<not> checkpw E pw_md5 pw_bcrypt
                      then \<lparr>r_response = Flash ''error'' ''Password is incorrect.'' ''login'',
                            r_session = s, r_glob = g, r_checkpw = 1\<rparr>
                      else login_post_checked E
                             (g\<lparr>cache_bcrypt := bcrypt_cache(pw_bcrypt \<mapsto> pw_md5)\<rparr>)
                             s f user_info 1)))"

text \<open>\<^verbatim>\<open>GET /register\<close>\<close>

definition register :: "glob \<Rightarrow> session \<Rightarrow> response" where
  "register g s =
     (if authenticated s \<noteq> None
      then (case user_data s of
              None \<Rightarrow> Raise KeyError
            | Some ud \<Rightarrow>
                Flash ''error''
                  (''Hey! You're already registered and logged in '' @ ud_name ud @ ''!'')
                  ''home'')
      else if \<not> registration (config g)
      then Flash ''error''
             ''Hey! You can't register at this time! Sorry for the inconvenience!'' ''home''
      else Render_template ''register.html'' [])"

text \<open>The write phase of \<^verbatim>\<open>POST /register\<close>, the block under \<^verbatim>\<open>asyncio.Lock()\<close>
  (lines 236 to 264): digest and hash the password, seed the cache, derive the safe
  name, resolve the country, insert the \<^verbatim>\<open>users\<close> row and the \<^verbatim>\<open>stats\<close> row.\<close>

definition register_write :: "env \<Rightarrow> glob \<Rightarrow> form \<Rightarrow> string \<Rightarrow> glob" where
  "register_write E g f remote_addr =
     (let pw_md5 = md5_hexdigest E (password f);
          pw_bcrypt = hashpw E pw_md5 (gensalt E);
          cache' = (cache_bcrypt g)(pw_bcrypt \<mapsto> pw_md5);
          safe_name = get_safe_name E (username f);
          country =
            (if remote_addr = ''127.0.0.1'' then ''xx''
             else (case geolite2_lookup E remote_addr of
                     None \<Rightarrow> ''xx''
                   | Some c \<Rightarrow> lower c));
          (user_id, d) =
            insert_user (db g) (username f) safe_name (email f) pw_bcrypt country
              (unix_timestamp E)
      in g\<lparr>db := insert_stats d user_id, cache_bcrypt := cache'\<rparr>)"

text \<open>Line 233 reads the name \<^verbatim>\<open>pw_text\<close>. The function binds \<^verbatim>\<open>form\<close>,
  \<^verbatim>\<open>username\<close>, \<^verbatim>\<open>email\<close> and \<^verbatim>\<open>pw_txt\<close>; the module binds its imports, its three
  sets, its two patterns and its handlers; no builtin has the name. So \<^verbatim>\<open>pw_text\<close>
  has no value, and reading it raises \<^verbatim>\<open>NameError\<close>.\<close>

definition pw_text :: "string option" where
  "pw_text = None"

text \<open>\<^verbatim>\<open>POST /register\<close>\<close>

definition register_post :: "env \<Rightarrow> glob \<Rightarrow> session \<Rightarrow> form \<Rightarrow> string \<Rightarrow> result" where
  "register_post E g s f remote_addr =
     (let pw_txt = password f;
          returns = (\<lambda>r. \<lparr>r_response = r, r_session = s, r_glob = g, r_checkpw = 0\<rparr>)
      in
      if authenticated s \<noteq> None
      then returns
             (case user_data s of
                None \<Rightarrow> Raise KeyError
              | Some ud \<Rightarrow>
                  Flash ''error''
                    (''Hey! You're already registered and logged in '' @ ud_name ud @ ''!'')
                    ''home'')
      else if \<not> registration (config g)
      then returns
             (Flash ''error''
                ''Hey! You can't register at this time! Sorry for the inconvenience!''
                ''home'')
      else if \<not> username_rgx_match (username f)
      then returns (Flash ''error'' ''Invalid username syntax.'' ''register'')
      else if CHR ''_'' \<in> set (username f) \<and> CHR '' '' \<in> set (username f)
      then returns
             (Flash ''error''
                (''Username may contain '' @ [CHR 0x22] @ ''_'' @ [CHR 0x22] @ '' or '' @
                 [CHR 0x22] @ '' '' @ [CHR 0x22] @ '', but not both.'')
                ''register'')
      else if username f \<in> set (disallowed_names (config g))
      then returns (Flash ''error'' ''Disallowed username; pick another.'' ''register'')
      else if fetch_by_name (db g) (username f) \<noteq> None
      then returns
             (Flash ''error'' ''Username already taken by another user.'' ''register'')
      else if \<not> email_rgx_match (email f)
      then returns (Flash ''error'' ''Invalid email syntax.'' ''register'')
      else if fetch_by_email (db g) (email f) \<noteq> None
      then returns (Flash ''error'' ''Email already taken by another user.'' ''register'')
      else if \<not> (8 < length pw_txt \<and> length pw_txt \<le> 32)
      then returns
             (Flash ''error'' ''Password must be 8-32 characters in length'' ''register'')
      else if card (set pw_txt) \<le> 3
      then returns
             (Flash ''error'' ''Password must have more than 3 unique characters.''
                ''register'')
      else (case pw_text of
              None \<Rightarrow> returns (Raise NameError)
            | Some t \<Rightarrow>
                if lower t \<in> set (disallowed_passwords (config g))
                then returns
                       (Flash ''error'' ''That password was deemed too simple.''
                          ''register'')
                else \<lparr>r_response = Render_template ''verify.html'' [],
                      r_session = s, r_glob = register_write E g f remote_addr,
                      r_checkpw = 0\<rparr>))"

text \<open>\<^verbatim>\<open>GET /logout\<close>. With \<^verbatim>\<open>debug\<close> set the handler reads
  \<^verbatim>\<open>session["user_data"]["name"]\<close> for its log line before it clears the session.\<close>

definition logout :: "glob \<Rightarrow> session \<Rightarrow> response \<times> session" where
  "logout g s =
     (if authenticated s = None
      then (Flash ''error'' ''You can't logout if you aren't logged in!'' ''login'', s)
      else if debug (config g) \<and> user_data s = None
      then (Raise KeyError, s)
      else (Flash ''success'' ''Successfully logged out!'' ''login'',
            s\<lparr>authenticated := None, user_data := None\<rparr>))"

text \<open>\<^verbatim>\<open>GET /docs\<close> and \<^verbatim>\<open>GET /doc/<doc>\<close>\<close>

definition docs_nodata :: response where
  "docs_nodata = Render_template ''docs.html'' []"

definition docs :: "env \<Rightarrow> string \<Rightarrow> response" where
  "docs E doc =
     (case markdown_path E (''docs/'' @ lower doc @ ''.md'') of
        Inl e \<Rightarrow> Raise e
      | Inr markdown \<Rightarrow>
          Render_template ''doc.html''
            [(''doc'', Str markdown), (''doc_title'', Str (capitalize E (lower doc)))])"

text \<open>\<^verbatim>\<open>GET /discord\<close>\<close>

definition discord :: "glob \<Rightarrow> response" where
  "discord g = Redirect (discord_server (config g))"

subsection \<open>The route table\<close>

text \<open>The routes the blueprint registers, each with the data its handler reads from the
  request.\<close>

datatype route =
    Home
  | Settings
  | Profile args string
  | Leaderboard_nodata
  | Leaderboard string string string
  | Login
  | Login_post form
  | Register
  | Register_post form string
  | Logout
  | Docs_nodata
  | Docs string
  | Discord

fun dispatch :: "env \<Rightarrow> glob \<Rightarrow> session \<Rightarrow> route \<Rightarrow> response" where
  "dispatch E g s Home = home"
| "dispatch E g s Settings = settings s"
| "dispatch E g s (Profile a user) = profile E g s a user"
| "dispatch E g s Leaderboard_nodata = leaderboard_nodata"
| "dispatch E g s (Leaderboard m srt md) = leaderboard m srt md"
| "dispatch E g s Login = login s"
| "dispatch E g s (Login_post f) = r_response (login_post E g s f)"
| "dispatch E g s Register = register g s"
| "dispatch E g s (Register_post f remote_addr) = r_response (register_post E g s f remote_addr)"
| "dispatch E g s Logout = fst (logout g s)"
| "dispatch E g s Docs_nodata = docs_nodata"
| "dispatch E g s (Docs doc) = docs E doc"
| "dispatch E g s Discord = discord g"

subsection \<open>Properties stated about the handlers\<close>

text \<open>A query value the profile route accepts (absent, empty, or in the enumeration) and the
  value the route then works with.\<close>

definition arg_accepted :: "string set \<Rightarrow> string option \<Rightarrow> bool" where
  "arg_accepted valid v = (case v of None \<Rightarrow> True | Some x \<Rightarrow> x = [] \<or> x \<in> valid)"

definition arg_value :: "string \<Rightarrow> string option \<Rightarrow> string" where
  "arg_value dflt v = (case v of None \<Rightarrow> dflt | Some x \<Rightarrow> if x = [] then dflt else x)"

fun is_payload :: "response \<Rightarrow> bool" where
  "is_payload (Payload b) = True"
| "is_payload r = False"

text \<open>Every cached digest verifies against the hash that is its key.\<close>

definition cache_wf :: "env \<Rightarrow> glob \<Rightarrow> bool" where
  "cache_wf E g = (\<forall>h d. cache_bcrypt g h = Some d \<longrightarrow> checkpw E d h)"

text \<open>Safe names and emails are unique across the rows of \<^verbatim>\<open>users\<close>.\<close>

definition unique_users :: "database \<Rightarrow> bool" where
  "unique_users d =
     (distinct (map u_safe_name (users d)) \<and> distinct (map u_email (users d)))"

subsection \<open>Example data\<close>

text \<open>An environment for the examples: a digest and a hash that can be computed by hand
  (the hash is the salt followed by the digest), the normalisation that lowercases a name
  and turns its spaces into underscores, and the privilege bits 1 (normal access),
  2 (verified) and 28672 (the three staff bits).\<close>

definition ex_safe_name :: "string \<Rightarrow> string" where
  "ex_safe_name n = map (\<lambda>c. if c = CHR '' '' then CHR ''_'' else c) (lower n)"

definition ex_env :: env where
  "ex_env =
     \<lparr>md5_hexdigest = (\<lambda>p. ''md5:'' @ p),
      checkpw = (\<lambda>d h. h = ''salt'' @ d),
      hashpw = (\<lambda>d salt. salt @ d),
      gensalt = ''salt'',
      get_safe_name = ex_safe_name,
      geolite2_lookup = (\<lambda>addr. None),
      unix_timestamp = 1600000000,
      Privileges_Normal = 1,
      Privileges_Verified = 2,
      Privileges_Staff = 28672,
      markdown_path = (\<lambda>path. Inl OSError),
      capitalize = (\<lambda>t. t),
      sql_id_condition =
        (\<lambda>user. if user = ''1'' then Some (\<lambda>u. u_id u = 1)
                else if user = ''3'' then Some (\<lambda>u. u_id u = 3)
                else if user = ''4'' then Some (\<lambda>u. u_id u = 4)
                else if user = ''99'' then Some (\<lambda>u. u_id u = 99)
                else None)\<rparr>"

text \<open>A store with the reserved bot account (id 1), a verified account and a banned one.\<close>

definition ex_users :: "user_row list" where
  "ex_users =
     [\<lparr>u_id = 1, u_name = ''Aika'', u_safe_name = ''aika'', u_email = ''aika@gulag.ca'',
       u_pw_bcrypt = ''salt'' @ ''md5:'' @ ''hunter2hunter2'', u_priv = 3, u_country = ''ca'',
       u_silence_end = 0, u_creation_time = 0, u_latest_activity = 0\<rparr>,
      \<lparr>u_id = 3, u_name = ''foo_bar'', u_safe_name = ''foo_bar'', u_email = ''foo@bar.co'',
       u_pw_bcrypt = ''salt'' @ ''md5:'' @ ''Str0ngPW!'', u_priv = 3, u_country = ''xx'',
       u_silence_end = 0, u_creation_time = 0, u_latest_activity = 0\<rparr>,
      \<lparr>u_id = 4, u_name = ''Banned'', u_safe_name = ''banned'', u_email = ''ban@ned.org'',
       u_pw_bcrypt = ''salt'' @ ''md5:'' @ ''correct horse'', u_priv = 2, u_country = ''xx'',
       u_silence_end = 0, u_creation_time = 0, u_latest_activity = 0\<rparr>]"

definition ex_glob :: glob where
  "ex_glob =
     \<lparr>config = \<lparr>debug = False, registration = True, disallowed_names = [''cookiezi''],
        disallowed_passwords = [''password1'', ''qwertyuiop''],
        discord_server = ''https://discord.gg/example''\<rparr>,
      db = \<lparr>users = ex_users, stats = [1, 3, 4], auto_increment = 5, default_priv = 1,
        default_silence_end = 0\<rparr>,
      cache_bcrypt = Map.empty\<rparr>"

definition anonymous :: session where
  "anonymous = \<lparr>authenticated = None, user_data = None\<rparr>"

definition ex_staff :: session where
  "ex_staff =
     \<lparr>authenticated = Some True,
      user_data = Some \<lparr>ud_id = 3, ud_name = ''foo_bar'', ud_priv = 4099, ud_silence_end = 0,
        ud_is_staff = 4096\<rparr>\<rparr>"

definition ex_player :: session where
  "ex_player =
     \<lparr>authenticated = Some True,
      user_data = Some \<lparr>ud_id = 3, ud_name = ''foo_bar'', ud_priv = 3, ud_silence_end = 0,
        ud_is_staff = 0\<rparr>\<rparr>"

text \<open>The flash that reports a username with both separators.\<close>

definition ambiguous_separator :: response where
  "ambiguous_separator =
     Flash ''error''
       (''Username may contain '' @ [CHR 0x22] @ ''_'' @ [CHR 0x22] @ '' or '' @
        [CHR 0x22] @ '' '' @ [CHR 0x22] @ '', but not both.'')
       ''register''"

text \<open>Request forms.\<close>

definition ex_login_bot :: form where
  "ex_login_bot = \<lparr>username = ''Aika'', email = [], password = ''hunter2hunter2''\<rparr>"

definition ex_reg_long :: form where
  "ex_reg_long =
     \<lparr>username = ''foo_bar baz quux'', email = ''a@b.co'', password = ''Str0ngPW!''\<rparr>"

definition ex_reg_both :: form where
  "ex_reg_both = \<lparr>username = ''a_ b'', email = ''a@b.co'', password = ''Str0ngPW!''\<rparr>"

definition ex_reg_taken :: form where
  "ex_reg_taken =
     \<lparr>username = ''foo_bar'', email = ''new@b.co'', password = ''Str0ngPW!''\<rparr>"

definition ex_reg_email_taken :: form where
  "ex_reg_email_taken =
     \<lparr>username = ''Alice'', email = ''foo@bar.co'', password = ''Str0ngPW!''\<rparr>"

definition ex_reg_collide :: form where
  "ex_reg_collide =
     \<lparr>username = ''foo bar'', email = ''new@b.co'', password = ''Str0ngPW!''\<rparr>"

definition ex_reg_pw :: "string \<Rightarrow> form" where
  "ex_reg_pw p = \<lparr>username = ''Alice'', email = ''a@b.co'', password = p\<rparr>"

definition ex_login_user :: form where
  "ex_login_user = \<lparr>username = ''foo_bar'', email = [], password = ''Str0ngPW!''\<rparr>"

definition ex_login_wrong :: form where
  "ex_login_wrong = \<lparr>username = ''foo_bar'', email = [], password = ''Str0ngPW?''\<rparr>"

text \<open>The example state after the verified account has logged in once.\<close>

definition ex_glob_cached :: glob where
  "ex_glob_cached =
     ex_glob\<lparr>cache_bcrypt :=
       [''salt'' @ ''md5:'' @ ''Str0ngPW!'' \<mapsto> ''md5:'' @ ''Str0ngPW!'']\<rparr>"

text \<open>The two pages the profile route chooses between, the second with the row and the
  query values the route works with.\<close>

definition page_404 :: response where
  "page_404 = Render_template ''404.html'' []"

definition page_profile :: "user_row \<Rightarrow> args \<Rightarrow> response" where
  "page_profile u a =
     Render_template ''profile.html''
       [(''user'', Row (profile_columns u)), (''mode'', Str (arg_value ''std'' (mode a))),
        (''mods'', Str (arg_value ''vn'' (mods a)))]"

text \<open>Query strings of profile requests.\<close>

definition ex_args_default :: args where
  "ex_args_default = \<lparr>mode = None, mods = None\<rparr>"

definition ex_args_bad_mods :: args where
  "ex_args_bad_mods = \<lparr>mode = None, mods = Some ''zz''\<rparr>"

definition ex_args_bad_mode :: args where
  "ex_args_bad_mode = \<lparr>mode = Some ''osu'', mods = Some ''rx''\<rparr>"

definition ex_args_empty_mods :: args where
  "ex_args_empty_mods = \<lparr>mode = Some ''taiko'', mods = Some []\<rparr>"

section \<open>Verified properties\<close>

subsection \<open>Facts about the example data and the store\<close>

lemma fetch_by_name_None:
  "fetch_by_name d n = None \<longleftrightarrow> \<not> (\<exists>u\<in>set (users d). u_name u = n)"
  by (auto simp: fetch_by_name_def find_None_iff)

lemma fetch_by_email_None:
  "fetch_by_email d e = None \<longleftrightarrow> \<not> (\<exists>u\<in>set (users d). u_email u = e)"
  by (auto simp: fetch_by_email_def find_None_iff)

lemma ex_safe_name_Aika: "ex_safe_name ''Aika'' = ''aika''"
  by code_simp

lemma rgx_long: "\<not> username_rgx_match ''foo_bar baz quux''"
  by code_simp

lemma rgx_both: "username_rgx_match ''a_ b''"
  by code_simp

lemma rgx_foo_bar: "username_rgx_match ''foo_bar''"
  by code_simp

lemma rgx_Alice: "username_rgx_match ''Alice''"
  by code_simp

lemma rgx_foo_sp_bar: "username_rgx_match ''foo bar''"
  by code_simp

lemma email_ab: "email_rgx_match ''a@b.co''"
  by code_simp

lemma email_new: "email_rgx_match ''new@b.co''"
  by code_simp

lemma email_foo: "email_rgx_match ''foo@bar.co''"
  by code_simp

lemma lower_Password1: "lower ''Password1'' = ''password1''"
  by code_simp

subsection \<open>Login: the account lookup\<close>

text \<open>C4. A login from a session that is not authenticated, for a name whose lookup by
  safe name gives no row or gives the row with id 1, is answered with the flash
  ``Account does not exist.'' towards the login surface, whatever the password, with no
  verification run and with session, store and cache as they were; the session is still
  not authenticated.\<close>

theorem login_post_account_not_found:
  assumes "authenticated s = None"
    and "fetch_by_safe_name (db g) (get_safe_name E (username f)) = None \<or>
         (\<exists>u. fetch_by_safe_name (db g) (get_safe_name E (username f)) = Some u \<and>
              u_id u = 1)"
  shows "login_post E g s f =
           \<lparr>r_response = Flash ''error'' ''Account does not exist.'' ''login'',
            r_session = s, r_glob = g, r_checkpw = 0\<rparr> \<and>
         authenticated (r_session (login_post E g s f)) = None"
  using assms by (auto simp: login_post_def)

text \<open>The bot account of the example store, with the password its stored hash verifies.\<close>

theorem login_post_account_not_found_witness:
  "checkpw ex_env (md5_hexdigest ex_env (password ex_login_bot)) (u_pw_bcrypt (hd ex_users)) \<and>
   login_post ex_env ex_glob anonymous ex_login_bot =
     \<lparr>r_response = Flash ''error'' ''Account does not exist.'' ''login'',
      r_session = anonymous, r_glob = ex_glob, r_checkpw = 0\<rparr>"
proof -
  have a: "authenticated anonymous = None"
    by (simp add: anonymous_def)
  have b: "fetch_by_safe_name (db ex_glob) (get_safe_name ex_env (username ex_login_bot)) =
             Some (hd ex_users) \<and> u_id (hd ex_users) = 1"
    by (simp add: fetch_by_safe_name_def ex_glob_def ex_env_def ex_login_bot_def
        ex_safe_name_Aika ex_users_def)
  have c: "checkpw ex_env (md5_hexdigest ex_env (password ex_login_bot))
             (u_pw_bcrypt (hd ex_users))"
    by (simp add: ex_env_def ex_login_bot_def ex_users_def)
  from b have "fetch_by_safe_name (db ex_glob) (get_safe_name ex_env (username ex_login_bot)) =
      None \<or>
    (\<exists>u. fetch_by_safe_name (db ex_glob) (get_safe_name ex_env (username ex_login_bot)) =
        Some u \<and> u_id u = 1)"
    by blast
  from login_post_account_not_found[OF a this] c show ?thesis
    by simp
qed

subsection \<open>Registration: the username checks\<close>

text \<open>A name of sixteen characters with an underscore and a space is turned away for its
  syntax, before the separators are looked at.\<close>

theorem register_post_separator_counterexample:
  "CHR ''_'' \<in> set (username ex_reg_long) \<and> CHR '' '' \<in> set (username ex_reg_long) \<and>
   r_response (register_post ex_env ex_glob anonymous ex_reg_long ''10.0.0.7'') =
     Flash ''error'' ''Invalid username syntax.'' ''register'' \<and>
   r_response (register_post ex_env ex_glob anonymous ex_reg_long ''10.0.0.7'') \<noteq>
     ambiguous_separator"
  by (simp add: register_post_def ex_reg_long_def anonymous_def ex_glob_def rgx_long
      ambiguous_separator_def)

text \<open>C5, amended. When the session is not authenticated and registration is enabled,
  every username that matches the username pattern and contains both a space and an
  underscore is answered with the flash for the ambiguous separator, whatever the
  denylist, the existing rows and the rest of the form are; nothing is written.\<close>

theorem register_post_ambiguous_separator:
  assumes "authenticated s = None" and "registration (config g)"
    and "username_rgx_match (username f)"
    and "CHR ''_'' \<in> set (username f)" and "CHR '' '' \<in> set (username f)"
  shows "register_post E g s f remote_addr =
           \<lparr>r_response = ambiguous_separator, r_session = s, r_glob = g, r_checkpw = 0\<rparr>"
  using assms by (simp add: register_post_def ambiguous_separator_def)

theorem register_post_ambiguous_separator_witness:
  "username_rgx_match (username ex_reg_both) \<and>
   register_post ex_env ex_glob anonymous ex_reg_both ''10.0.0.7'' =
     \<lparr>r_response = ambiguous_separator, r_session = anonymous, r_glob = ex_glob,
      r_checkpw = 0\<rparr>"
proof -
  have 1: "authenticated anonymous = None"
    by (simp add: anonymous_def)
  have 2: "registration (config ex_glob)"
    by (simp add: ex_glob_def)
  have 3: "username_rgx_match (username ex_reg_both)"
    by (simp add: ex_reg_both_def rgx_both)
  have 4: "CHR ''_'' \<in> set (username ex_reg_both)"
    by (simp add: ex_reg_both_def)
  have 5: "CHR '' '' \<in> set (username ex_reg_both)"
    by (simp add: ex_reg_both_def)
  from register_post_ambiguous_separator[OF 1 2 3 4 5] 3 show ?thesis
    by simp
qed

text \<open>A username that fails the pattern is turned away for its syntax, whatever
  separators it contains.\<close>

lemma register_post_invalid_syntax:
  assumes "authenticated s = None" and "registration (config g)"
    and "\<not> username_rgx_match (username f)"
  shows "register_post E g s f remote_addr =
           \<lparr>r_response = Flash ''error'' ''Invalid username syntax.'' ''register'',
            r_session = s, r_glob = g, r_checkpw = 0\<rparr>"
  using assms by (simp add: register_post_def)

subsection \<open>Registration: a name or an email that is taken\<close>

text \<open>C7. When the session is not authenticated, registration is enabled and the username
  passes the syntax, separator and denylist checks, a request whose display name is the
  name of an existing row, or whose email has valid syntax and is the email of an existing
  row, is answered with the flash that the name (or else the email) is already taken, and
  store, cache and session are left as they were: no row of either table and no cache
  entry is created.\<close>

theorem register_post_taken:
  assumes "authenticated s = None" and "registration (config g)"
    and "username_rgx_match (username f)"
    and "\<not> (CHR ''_'' \<in> set (username f) \<and> CHR '' '' \<in> set (username f))"
    and "username f \<notin> set (disallowed_names (config g))"
    and "(\<exists>u\<in>set (users (db g)). u_name u = username f) \<or>
         (email_rgx_match (email f) \<and> (\<exists>u\<in>set (users (db g)). u_email u = email f))"
  shows "register_post E g s f remote_addr =
           \<lparr>r_response =
              Flash ''error''
                (if \<exists>u\<in>set (users (db g)). u_name u = username f
                 then ''Username already taken by another user.''
                 else ''Email already taken by another user.'')
                ''register'',
            r_session = s, r_glob = g, r_checkpw = 0\<rparr>"
proof (cases "\<exists>u\<in>set (users (db g)). u_name u = username f")
  case True
  then have "fetch_by_name (db g) (username f) \<noteq> None"
    by (simp add: fetch_by_name_None)
  with assms(1-5) True show ?thesis
    by (simp add: register_post_def Let_def)
next
  case False
  then have n: "fetch_by_name (db g) (username f) = None"
    by (simp add: fetch_by_name_None)
  from False assms(6) have e: "email_rgx_match (email f)"
    and "\<exists>u\<in>set (users (db g)). u_email u = email f"
    by blast+
  then have "fetch_by_email (db g) (email f) \<noteq> None"
    by (simp add: fetch_by_email_None)
  with assms(1-5) False n e show ?thesis
    by (simp add: register_post_def Let_def)
qed

theorem register_post_taken_witness:
  "register_post ex_env ex_glob anonymous ex_reg_taken ''10.0.0.7'' =
     \<lparr>r_response = Flash ''error'' ''Username already taken by another user.'' ''register'',
      r_session = anonymous, r_glob = ex_glob, r_checkpw = 0\<rparr> \<and>
   register_post ex_env ex_glob anonymous ex_reg_email_taken ''10.0.0.7'' =
     \<lparr>r_response = Flash ''error'' ''Email already taken by another user.'' ''register'',
      r_session = anonymous, r_glob = ex_glob, r_checkpw = 0\<rparr>"
proof -
  have 1: "authenticated anonymous = None"
    by (simp add: anonymous_def)
  have 2: "registration (config ex_glob)"
    by (simp add: ex_glob_def)
  have a3: "username_rgx_match (username ex_reg_taken)"
    by (simp add: ex_reg_taken_def rgx_foo_bar)
  have a4: "\<not> (CHR ''_'' \<in> set (username ex_reg_taken) \<and>
      CHR '' '' \<in> set (username ex_reg_taken))"
    by (simp add: ex_reg_taken_def)
  have a5: "username ex_reg_taken \<notin> set (disallowed_names (config ex_glob))"
    by (simp add: ex_reg_taken_def ex_glob_def)
  have a6: "\<exists>u\<in>set (users (db ex_glob)). u_name u = username ex_reg_taken"
    by (simp add: ex_glob_def ex_users_def ex_reg_taken_def)
  have b3: "username_rgx_match (username ex_reg_email_taken)"
    by (simp add: ex_reg_email_taken_def rgx_Alice)
  have b4: "\<not> (CHR ''_'' \<in> set (username ex_reg_email_taken) \<and>
      CHR '' '' \<in> set (username ex_reg_email_taken))"
    by (simp add: ex_reg_email_taken_def)
  have b5: "username ex_reg_email_taken \<notin> set (disallowed_names (config ex_glob))"
    by (simp add: ex_reg_email_taken_def ex_glob_def)
  have b6: "email_rgx_match (email ex_reg_email_taken) \<and>
      (\<exists>u\<in>set (users (db ex_glob)). u_email u = email ex_reg_email_taken)"
    by (simp add: ex_glob_def ex_users_def ex_reg_email_taken_def email_foo)
  have b7: "\<not> (\<exists>u\<in>set (users (db ex_glob)). u_name u = username ex_reg_email_taken)"
    by (simp add: ex_glob_def ex_users_def ex_reg_email_taken_def)
  from register_post_taken[OF 1 2 a3 a4 a5 disjI1[OF a6]] a6
    register_post_taken[OF 1 2 b3 b4 b5 disjI2[OF b6]] b7
  show ?thesis
    by simp
qed

lemma lower_Str0ngPW: "lower ''Str0ngPW!'' = ''str0ngpw!''"
  by code_simp

lemma ex_safe_name_foo_sp_bar: "ex_safe_name ''foo bar'' = ''foo_bar''"
  by code_simp

lemma ex_safe_name_foo_bar: "ex_safe_name ''foo_bar'' = ''foo_bar''"
  by code_simp

subsection \<open>Registration: the password checks and line 233\<close>

text \<open>Once the guards, the username checks and the email checks have passed, the response
  is decided by the length of the password and the number of its distinct characters, and
  a password that passes both ends at the unbound name of line 233.\<close>

lemma register_post_password_checks:
  assumes "authenticated s = None" and "registration (config g)"
    and "username_rgx_match (username f)"
    and "\<not> (CHR ''_'' \<in> set (username f) \<and> CHR '' '' \<in> set (username f))"
    and "username f \<notin> set (disallowed_names (config g))"
    and "fetch_by_name (db g) (username f) = None"
    and "email_rgx_match (email f)"
    and "fetch_by_email (db g) (email f) = None"
  shows "r_response (register_post E g s f remote_addr) =
           (if \<not> (8 < length (password f) \<and> length (password f) \<le> 32)
            then Flash ''error'' ''Password must be 8-32 characters in length'' ''register''
            else if card (set (password f)) \<le> 3
            then Flash ''error'' ''Password must have more than 3 unique characters.''
                   ''register''
            else Raise NameError)"
  using assms
  by (cases "CHR ''_'' \<in> set (username f)")
    (simp_all add: register_post_def Let_def pw_text_def)

text \<open>No request changes the store or the cache through \<^const>\<open>register_post\<close>: every
  branch that the unbound name leaves reachable returns the state it was given.\<close>

lemma register_post_glob: "r_glob (register_post E g s f remote_addr) = g"
  by (simp add: register_post_def Let_def pw_text_def)

lemma register_post_session: "r_session (register_post E g s f remote_addr) = s"
  by (simp add: register_post_def Let_def pw_text_def)

lemma ex_reg_pw_checks:
  "authenticated anonymous = None"
  "registration (config ex_glob)"
  "username_rgx_match (username (ex_reg_pw p))"
  "\<not> (CHR ''_'' \<in> set (username (ex_reg_pw p)) \<and> CHR '' '' \<in> set (username (ex_reg_pw p)))"
  "username (ex_reg_pw p) \<notin> set (disallowed_names (config ex_glob))"
  "fetch_by_name (db ex_glob) (username (ex_reg_pw p)) = None"
  "email_rgx_match (email (ex_reg_pw p))"
  "fetch_by_email (db ex_glob) (email (ex_reg_pw p)) = None"
  by (simp_all add: anonymous_def ex_glob_def ex_reg_pw_def rgx_Alice email_ab
      fetch_by_name_def fetch_by_email_def ex_users_def)

lemma ex_reg_pw_response:
  "r_response (register_post ex_env ex_glob anonymous (ex_reg_pw p) ''10.0.0.7'') =
     (if \<not> (8 < length p \<and> length p \<le> 32)
      then Flash ''error'' ''Password must be 8-32 characters in length'' ''register''
      else if length (remdups p) \<le> 3
      then Flash ''error'' ''Password must have more than 3 unique characters.'' ''register''
      else Raise NameError)"
  using register_post_password_checks[OF ex_reg_pw_checks,
      where E = ex_env and remote_addr = "''10.0.0.7''" and p1 = p]
  by (simp add: ex_reg_pw_def card_set)

text \<open>C1. A request that passes every check before line 233 with the password
  \<^verbatim>\<open>Password1\<close>, whose lowercase is in the list of disallowed passwords: the handler
  raises \<^verbatim>\<open>NameError\<close> where the flash ``That password was deemed too simple.'' is
  due.\<close>

theorem register_post_denylisted_NameError:
  "lower (password (ex_reg_pw ''Password1'')) \<in> set (disallowed_passwords (config ex_glob)) \<and>
   register_post ex_env ex_glob anonymous (ex_reg_pw ''Password1'') ''10.0.0.7'' =
     \<lparr>r_response = Raise NameError, r_session = anonymous, r_glob = ex_glob,
      r_checkpw = 0\<rparr>"
proof -
  have "r_response (register_post ex_env ex_glob anonymous (ex_reg_pw ''Password1'')
      ''10.0.0.7'') = Raise NameError"
    by (simp add: ex_reg_pw_response)
  moreover have "lower (password (ex_reg_pw ''Password1'')) \<in>
      set (disallowed_passwords (config ex_glob))"
    by (simp add: ex_reg_pw_def ex_glob_def lower_Password1)
  moreover have "register_post ex_env ex_glob anonymous (ex_reg_pw ''Password1'') ''10.0.0.7'' =
      \<lparr>r_response = r_response (register_post ex_env ex_glob anonymous
          (ex_reg_pw ''Password1'') ''10.0.0.7''),
       r_session = anonymous, r_glob = ex_glob, r_checkpw = 0\<rparr>"
    by (simp add: register_post_def Let_def pw_text_def)
  ultimately show ?thesis
    by simp
qed

text \<open>C6. The password checks at the boundaries, for a request that passes every earlier
  check. A password of 9 distinct characters that is not disallowed, one of 32
  characters and one of 4 distinct characters pass the length and distinctness checks and
  then raise \<^verbatim>\<open>NameError\<close> at line 233 where the write phase is due; a password of 8
  characters is too short, and one of 3 distinct characters is too simple.\<close>

theorem register_post_password_boundaries:
  "lower ''Str0ngPW!'' \<notin> set (disallowed_passwords (config ex_glob)) \<and>
   r_response (register_post ex_env ex_glob anonymous (ex_reg_pw ''Str0ngPW!'') ''10.0.0.7'') =
     Raise NameError \<and>
   r_glob (register_post ex_env ex_glob anonymous (ex_reg_pw ''Str0ngPW!'') ''10.0.0.7'') =
     ex_glob \<and>
   r_response (register_post ex_env ex_glob anonymous (ex_reg_pw ''Str0ngPW'') ''10.0.0.7'') =
     Flash ''error'' ''Password must be 8-32 characters in length'' ''register'' \<and>
   r_response (register_post ex_env ex_glob anonymous
       (ex_reg_pw ''abcdefghijklmnopqrstuvwxyz012345'') ''10.0.0.7'') =
     Raise NameError \<and>
   r_response (register_post ex_env ex_glob anonymous (ex_reg_pw ''abcabcabc'') ''10.0.0.7'') =
     Flash ''error'' ''Password must have more than 3 unique characters.'' ''register'' \<and>
   r_response (register_post ex_env ex_glob anonymous (ex_reg_pw ''abcdabcda'') ''10.0.0.7'') =
     Raise NameError"
  by (simp add: ex_reg_pw_response register_post_glob lower_Str0ngPW)
    (simp add: ex_glob_def)

subsection \<open>Registration: the write phase and the uniqueness of safe names\<close>

lemma users_register_write:
  "users (db (register_write E g f remote_addr)) =
     users (db g) @
     [\<lparr>u_id = auto_increment (db g), u_name = username f,
       u_safe_name = get_safe_name E (username f), u_email = email f,
       u_pw_bcrypt = hashpw E (md5_hexdigest E (password f)) (gensalt E),
       u_priv = default_priv (db g),
       u_country =
         (if remote_addr = ''127.0.0.1'' then ''xx''
          else case geolite2_lookup E remote_addr of None \<Rightarrow> ''xx'' | Some c \<Rightarrow> lower c),
       u_silence_end = default_silence_end (db g),
       u_creation_time = unix_timestamp E, u_latest_activity = unix_timestamp E\<rparr>]"
  by (simp add: register_write_def insert_user_def insert_stats_def Let_def)

text \<open>The two lookups that guard the write phase compare display names and emails: after
  them the write phase keeps display names and emails distinct, and it keeps safe names
  distinct exactly when no row has the safe name of the new username.\<close>

lemma register_write_names_emails:
  assumes "distinct (map u_name (users (db g)))" and "distinct (map u_email (users (db g)))"
    and "fetch_by_name (db g) (username f) = None"
    and "fetch_by_email (db g) (email f) = None"
  shows "distinct (map u_name (users (db (register_write E g f remote_addr)))) \<and>
         distinct (map u_email (users (db (register_write E g f remote_addr))))"
  using assms
  by (auto simp: users_register_write fetch_by_name_None fetch_by_email_None)

lemma register_write_safe_names:
  assumes "distinct (map u_safe_name (users (db g)))"
  shows "distinct (map u_safe_name (users (db (register_write E g f remote_addr)))) \<longleftrightarrow>
         get_safe_name E (username f) \<notin> u_safe_name ` set (users (db g))"
  using assms by (auto simp: users_register_write)

text \<open>The write phase taken by itself, on the example store, which has distinct safe
  names and emails and holds the name \<^verbatim>\<open>foo_bar\<close>: for the form with the name
  \<^verbatim>\<open>foo bar\<close> and a new email both lookups find nothing, and the write phase appends a
  second row with the safe name \<^verbatim>\<open>foo_bar\<close>. The handler does not get that far: the
  same request ends at line 233.\<close>

lemma register_write_duplicate_safe_name:
  "unique_users (db ex_glob) \<and>
   fetch_by_name (db ex_glob) (username ex_reg_collide) = None \<and>
   fetch_by_email (db ex_glob) (email ex_reg_collide) = None \<and>
   map u_safe_name (users (db (register_write ex_env ex_glob ex_reg_collide ''10.0.0.7''))) =
     [''aika'', ''foo_bar'', ''banned'', ''foo_bar''] \<and>
   map u_name (users (db (register_write ex_env ex_glob ex_reg_collide ''10.0.0.7''))) =
     [''Aika'', ''foo_bar'', ''Banned'', ''foo bar''] \<and>
   \<not> unique_users (db (register_write ex_env ex_glob ex_reg_collide ''10.0.0.7'')) \<and>
   r_response (register_post ex_env ex_glob anonymous ex_reg_collide ''10.0.0.7'') =
     Raise NameError"
proof -
  have u: "unique_users (db ex_glob)"
    by (simp add: unique_users_def ex_glob_def ex_users_def)
  have n: "fetch_by_name (db ex_glob) (username ex_reg_collide) = None"
    by (simp add: fetch_by_name_def ex_glob_def ex_users_def ex_reg_collide_def)
  have e: "fetch_by_email (db ex_glob) (email ex_reg_collide) = None"
    by (simp add: fetch_by_email_def ex_glob_def ex_users_def ex_reg_collide_def)
  have s: "map u_safe_name
      (users (db (register_write ex_env ex_glob ex_reg_collide ''10.0.0.7''))) =
     [''aika'', ''foo_bar'', ''banned'', ''foo_bar'']"
    by (simp add: users_register_write ex_glob_def ex_users_def ex_reg_collide_def ex_env_def
        ex_safe_name_foo_sp_bar)
  have m: "map u_name (users (db (register_write ex_env ex_glob ex_reg_collide ''10.0.0.7''))) =
     [''Aika'', ''foo_bar'', ''Banned'', ''foo bar'']"
    by (simp add: users_register_write ex_glob_def ex_users_def ex_reg_collide_def)
  have d: "\<not> unique_users (db (register_write ex_env ex_glob ex_reg_collide ''10.0.0.7''))"
    by (simp add: unique_users_def s)
  have c: "card (set ''Str0ngPW!'') = 9"
    by (simp add: card_set)
  have r: "r_response (register_post ex_env ex_glob anonymous ex_reg_collide ''10.0.0.7'') =
     Raise NameError"
    using n e c
    by (simp add: register_post_def Let_def pw_text_def anonymous_def)
      (simp add: ex_glob_def ex_reg_collide_def rgx_foo_sp_bar email_new)
  from u n e s m d r show ?thesis
    by blast
qed



subsection \<open>Login: the password check and the credential cache\<close>

lemma login_post_checked_glob: "r_glob (login_post_checked E g s f u n) = g"
  by (simp add: login_post_checked_def)

lemma login_post_checked_checkpw: "r_checkpw (login_post_checked E g s f u n) = n"
  by (simp add: login_post_checked_def)

lemma login_post_checked_count:
  "login_post_checked E g s f u 0 = (login_post_checked E g s f u n)\<lparr>r_checkpw := 0\<rparr>"
  by (simp add: login_post_checked_def)

text \<open>The two paths of the password check: the hash is not in the cache, or it is.\<close>

lemma login_post_miss:
  assumes "authenticated s = None"
    and "fetch_by_safe_name (db g) (get_safe_name E (username f)) = Some u" and "u_id u \<noteq> 1"
    and "cache_bcrypt g (u_pw_bcrypt u) = None"
  shows "login_post E g s f =
           (if checkpw E (md5_hexdigest E (password f)) (u_pw_bcrypt u)
            then login_post_checked E
                   (g\<lparr>cache_bcrypt :=
                      (cache_bcrypt g)(u_pw_bcrypt u \<mapsto> md5_hexdigest E (password f))\<rparr>)
                   s f u 1
            else \<lparr>r_response = Flash ''error'' ''Password is incorrect.'' ''login'',
                  r_session = s, r_glob = g, r_checkpw = 1\<rparr>)"
  using assms by (simp add: login_post_def Let_def)

lemma login_post_hit:
  assumes "authenticated s = None"
    and "fetch_by_safe_name (db g) (get_safe_name E (username f)) = Some u" and "u_id u \<noteq> 1"
    and "cache_bcrypt g (u_pw_bcrypt u) = Some d"
  shows "login_post E g s f =
           (if md5_hexdigest E (password f) = d
            then login_post_checked E g s f u 0
            else \<lparr>r_response = Flash ''error'' ''Password is incorrect.'' ''login'',
                  r_session = s, r_glob = g, r_checkpw = 0\<rparr>)"
  using assms by (simp add: login_post_def Let_def)

text \<open>The cache after a login is the cache before it, or the cache before it with the hash
  of the account mapped to a digest that has just verified against it.\<close>

lemma login_post_cache:
  "cache_bcrypt (r_glob (login_post E g s f)) = cache_bcrypt g \<or>
   (\<exists>u. fetch_by_safe_name (db g) (get_safe_name E (username f)) = Some u \<and>
        cache_bcrypt g (u_pw_bcrypt u) = None \<and>
        checkpw E (md5_hexdigest E (password f)) (u_pw_bcrypt u) \<and>
        cache_bcrypt (r_glob (login_post E g s f)) =
          (cache_bcrypt g)(u_pw_bcrypt u \<mapsto> md5_hexdigest E (password f)))"
  by (simp add: login_post_def Let_def login_post_checked_glob split: option.split)

lemma login_post_new_entries:
  assumes "cache_bcrypt (r_glob (login_post E g s f)) h = Some d"
  shows "cache_bcrypt g h = Some d \<or> checkpw E d h"
  using assms login_post_cache[of E g s f] by (auto split: if_splits)

lemma cache_wf_login_post:
  assumes "cache_wf E g"
  shows "cache_wf E (r_glob (login_post E g s f))"
  unfolding cache_wf_def
proof (intro allI impI)
  fix h d
  assume "cache_bcrypt (r_glob (login_post E g s f)) h = Some d"
  then have "cache_bcrypt g h = Some d \<or> checkpw E d h"
    by (rule login_post_new_entries)
  with assms show "checkpw E d h"
    by (auto simp: cache_wf_def)
qed

lemma cache_register_write:
  "cache_bcrypt (register_write E g f remote_addr) =
     (cache_bcrypt g)(hashpw E (md5_hexdigest E (password f)) (gensalt E) \<mapsto>
        md5_hexdigest E (password f))"
  by (simp add: register_write_def insert_user_def insert_stats_def Let_def)

lemma cache_wf_register_write:
  assumes "cache_wf E g"
    and "checkpw E (md5_hexdigest E (password f))
           (hashpw E (md5_hexdigest E (password f)) (gensalt E))"
  shows "cache_wf E (register_write E g f remote_addr)"
  using assms by (auto simp: cache_wf_def cache_register_write)

text \<open>C10. Let every cached digest verify against its key, and let a hash computed with
  the generated salt verify the digest it was computed from. Then the same holds of the
  cache after \<^const>\<open>login_post\<close>, after the write phase of registration, and after
  \<^const>\<open>register_post\<close>. An entry of the cache after a login was there before or has a
  digest that verifies against its key, and the write phase stores the fresh hash of the
  digest of the submitted password, mapped to that digest.\<close>

theorem cache_wf_preserved:
  assumes "cache_wf E g"
    and "\<forall>d. checkpw E d (hashpw E d (gensalt E))"
  shows "cache_wf E (r_glob (login_post E g s f)) \<and>
         cache_wf E (register_write E g f' remote_addr) \<and>
         cache_wf E (r_glob (register_post E g s f' remote_addr)) \<and>
         (\<forall>h d. cache_bcrypt (r_glob (login_post E g s f)) h = Some d \<longrightarrow>
            cache_bcrypt g h = Some d \<or> checkpw E d h) \<and>
         cache_bcrypt (register_write E g f' remote_addr) =
           (cache_bcrypt g)(hashpw E (md5_hexdigest E (password f')) (gensalt E) \<mapsto>
              md5_hexdigest E (password f'))"
  using assms
  by (simp add: cache_wf_login_post cache_wf_register_write register_post_glob
      login_post_new_entries cache_register_write)

lemma ex_fetch_foo_bar:
  "fetch_by_safe_name (db ex_glob) (get_safe_name ex_env ''foo_bar'') = Some (ex_users ! 1)"
  by (simp add: fetch_by_safe_name_def ex_glob_def ex_env_def ex_safe_name_foo_bar ex_users_def)

lemma ex_first_login:
  "login_post ex_env ex_glob anonymous ex_login_user =
     \<lparr>r_response = Flash ''success'' ''Hey! Welcome back foo_bar!'' ''home'',
      r_session = ex_player, r_glob = ex_glob_cached, r_checkpw = 1\<rparr>"
  by (simp add: login_post_def Let_def ex_login_user_def ex_fetch_foo_bar)
    (simp add: ex_users_def ex_glob_def ex_env_def anonymous_def ex_player_def
      ex_glob_cached_def login_post_checked_def)

lemma ex_uncached_wrong:
  "login_post ex_env ex_glob anonymous ex_login_wrong =
     \<lparr>r_response = Flash ''error'' ''Password is incorrect.'' ''login'',
      r_session = anonymous, r_glob = ex_glob, r_checkpw = 1\<rparr>"
  by (simp add: login_post_def Let_def ex_login_wrong_def ex_fetch_foo_bar)
    (simp add: ex_users_def ex_glob_def ex_env_def anonymous_def)

theorem cache_wf_preserved_witness:
  "cache_wf ex_env ex_glob_cached \<and>
   cache_wf ex_env (r_glob (login_post ex_env ex_glob_cached anonymous ex_login_user)) \<and>
   cache_wf ex_env (register_write ex_env ex_glob_cached (ex_reg_pw ''correct horse'')
     ''10.0.0.7'') \<and>
   cache_bcrypt (register_write ex_env ex_glob_cached (ex_reg_pw ''correct horse'')
     ''10.0.0.7'') (''salt'' @ ''md5:'' @ ''correct horse'') = Some (''md5:'' @ ''correct horse'')"
proof -
  have w: "cache_wf ex_env ex_glob_cached"
    by (simp add: cache_wf_def ex_glob_cached_def ex_env_def)
  have c: "\<forall>d. checkpw ex_env d (hashpw ex_env d (gensalt ex_env))"
    by (simp add: ex_env_def)
  from cache_wf_preserved[OF w c, of anonymous ex_login_user "ex_reg_pw ''correct horse''"
      "''10.0.0.7''"] w
  show ?thesis
    by (simp add: ex_env_def ex_reg_pw_def)
qed

text \<open>A first login of the verified account succeeds through the verification and
  authenticates the session; a second attempt from that session is answered by the guard
  of line 90, which does not look at the cache.\<close>

theorem login_post_twice_same_session:
  "r_response (login_post ex_env ex_glob anonymous ex_login_user) =
     Flash ''success'' ''Hey! Welcome back foo_bar!'' ''home'' \<and>
   r_checkpw (login_post ex_env ex_glob anonymous ex_login_user) = 1 \<and>
   r_response (login_post ex_env (r_glob (login_post ex_env ex_glob anonymous ex_login_user))
       (r_session (login_post ex_env ex_glob anonymous ex_login_user)) ex_login_user) =
     Flash ''error'' ''Hey! You're already logged in foo_bar!'' ''home''"
  by (simp add: ex_first_login) (simp add: login_post_def ex_player_def)

text \<open>C2, amended. Take an account that the lookup finds, other than the reserved one,
  whose hash is not in the cache, and a password whose digest verifies against the hash.
  The first login, from a session that is not authenticated, runs the verification once
  and leaves the hash mapped to the digest in the cache, the store unchanged. A second
  attempt with the same form from any session that is not authenticated runs no
  verification and otherwise returns what the attempt without the cache entry returns
  from that session: the same response, session and state. If the digest of the first
  password is the only one the verification accepts for the hash, then for any submitted
  password the comparison with the cached digest accepts exactly when the verification
  accepts, and the cached and the uncached attempt agree in response and session, with
  no verification run in the cached one and one in the uncached one.\<close>

theorem login_post_cached_equals_uncached:
  assumes "authenticated s = None" and "authenticated s' = None"
    and "fetch_by_safe_name (db g) (get_safe_name E (username f)) = Some u" and "u_id u \<noteq> 1"
    and "cache_bcrypt g (u_pw_bcrypt u) = None"
    and "checkpw E (md5_hexdigest E (password f)) (u_pw_bcrypt u)"
    and "g1 = r_glob (login_post E g s f)"
  shows "r_checkpw (login_post E g s f) = 1 \<and>
         cache_bcrypt g1 (u_pw_bcrypt u) = Some (md5_hexdigest E (password f)) \<and>
         db g1 = db g \<and>
         login_post E g1 s' f = (login_post E g s' f)\<lparr>r_checkpw := 0\<rparr> \<and>
         ((\<forall>d. checkpw E d (u_pw_bcrypt u) \<longrightarrow> d = md5_hexdigest E (password f)) \<longrightarrow>
          (\<forall>f'. username f' = username f \<longrightarrow>
             (md5_hexdigest E (password f') = md5_hexdigest E (password f) \<longleftrightarrow>
                checkpw E (md5_hexdigest E (password f')) (u_pw_bcrypt u)) \<and>
             r_response (login_post E g1 s' f') = r_response (login_post E g s' f') \<and>
             r_session (login_post E g1 s' f') = r_session (login_post E g s' f') \<and>
             r_checkpw (login_post E g1 s' f') = 0 \<and>
             r_checkpw (login_post E g s' f') = 1))"
proof -
  let ?d = "md5_hexdigest E (password f)"
  let ?h = "u_pw_bcrypt u"
  let ?g = "g\<lparr>cache_bcrypt := (cache_bcrypt g)(?h \<mapsto> ?d)\<rparr>"
  have first: "login_post E g s f = login_post_checked E ?g s f u 1"
    using assms(1,3-6) by (simp add: login_post_miss)
  then have g1: "g1 = ?g"
    using assms(7) by (simp add: login_post_checked_glob)
  have hit: "cache_bcrypt g1 ?h = Some ?d" and dbeq: "db g1 = db g"
    by (simp_all add: g1)
  have u1: "fetch_by_safe_name (db g1) (get_safe_name E (username f)) = Some u"
    using assms(3) by (simp add: dbeq)
  have unc: "login_post E g s' f = login_post_checked E ?g s' f u 1"
    using assms(2-6) by (simp add: login_post_miss)
  have cac: "login_post E g1 s' f = login_post_checked E g1 s' f u 0"
    using assms(2,4) u1 hit by (simp add: login_post_hit)
  have second: "login_post E g1 s' f = (login_post E g s' f)\<lparr>r_checkpw := 0\<rparr>"
  proof -
    have "login_post E g1 s' f = (login_post_checked E g1 s' f u 1)\<lparr>r_checkpw := 0\<rparr>"
      unfolding cac by (rule login_post_checked_count)
    also have "login_post_checked E g1 s' f u 1 = login_post E g s' f"
      unfolding unc g1 by (rule refl)
    finally show ?thesis .
  qed
  have any: "(md5_hexdigest E (password f') = ?d \<longleftrightarrow> checkpw E (md5_hexdigest E (password f')) ?h) \<and>
             r_response (login_post E g1 s' f') = r_response (login_post E g s' f') \<and>
             r_session (login_post E g1 s' f') = r_session (login_post E g s' f') \<and>
             r_checkpw (login_post E g1 s' f') = 0 \<and>
             r_checkpw (login_post E g s' f') = 1"
    if inj: "\<forall>d. checkpw E d ?h \<longrightarrow> d = ?d" and nm: "username f' = username f" for f'
  proof -
    have iff: "md5_hexdigest E (password f') = ?d \<longleftrightarrow> checkpw E (md5_hexdigest E (password f')) ?h"
    proof
      assume "md5_hexdigest E (password f') = ?d"
      with assms(6) show "checkpw E (md5_hexdigest E (password f')) ?h"
        by simp
    next
      assume "checkpw E (md5_hexdigest E (password f')) ?h"
      with inj show "md5_hexdigest E (password f') = ?d"
        by blast
    qed
    have uf: "fetch_by_safe_name (db g) (get_safe_name E (username f')) = Some u"
      using assms(3) by (simp only: nm)
    have uf1: "fetch_by_safe_name (db g1) (get_safe_name E (username f')) = Some u"
      using u1 by (simp only: nm)
    have a: "login_post E g s' f' =
           (if checkpw E (md5_hexdigest E (password f')) ?h
            then login_post_checked E
                   (g\<lparr>cache_bcrypt := (cache_bcrypt g)(?h \<mapsto> md5_hexdigest E (password f'))\<rparr>)
                   s' f' u 1
            else \<lparr>r_response = Flash ''error'' ''Password is incorrect.'' ''login'',
                  r_session = s', r_glob = g, r_checkpw = 1\<rparr>)"
      by (rule login_post_miss[OF assms(2) uf assms(4,5)])
    have b: "login_post E g1 s' f' =
           (if md5_hexdigest E (password f') = ?d
            then login_post_checked E g1 s' f' u 0
            else \<lparr>r_response = Flash ''error'' ''Password is incorrect.'' ''login'',
                  r_session = s', r_glob = g1, r_checkpw = 0\<rparr>)"
      by (rule login_post_hit[OF assms(2) uf1 assms(4) hit])
    show ?thesis
    proof (cases "md5_hexdigest E (password f') = ?d")
      case True
      with iff have c: "checkpw E (md5_hexdigest E (password f')) ?h"
        by simp
      from True c show ?thesis
        unfolding a b
        by (simp add: login_post_checked_def)
    next
      case False
      with iff have c: "\<not> checkpw E (md5_hexdigest E (password f')) ?h"
        by simp
      from False c show ?thesis
        unfolding a b by simp
    qed
  qed
  have one: "r_checkpw (login_post E g s f) = 1"
    unfolding first by (rule login_post_checked_checkpw)
  from one hit dbeq second any show ?thesis
    by blast
qed

theorem login_post_cached_equals_uncached_witness:
  "login_post ex_env ex_glob anonymous ex_login_user =
     \<lparr>r_response = Flash ''success'' ''Hey! Welcome back foo_bar!'' ''home'',
      r_session = ex_player, r_glob = ex_glob_cached, r_checkpw = 1\<rparr> \<and>
   login_post ex_env ex_glob_cached anonymous ex_login_user =
     \<lparr>r_response = Flash ''success'' ''Hey! Welcome back foo_bar!'' ''home'',
      r_session = ex_player, r_glob = ex_glob_cached, r_checkpw = 0\<rparr> \<and>
   r_response (login_post ex_env ex_glob_cached anonymous ex_login_wrong) =
     Flash ''error'' ''Password is incorrect.'' ''login'' \<and>
   r_checkpw (login_post ex_env ex_glob_cached anonymous ex_login_wrong) = 0"
proof -
  let ?u = "ex_users ! 1"
  have a: "authenticated anonymous = None"
    by (simp add: anonymous_def)
  have u: "fetch_by_safe_name (db ex_glob) (get_safe_name ex_env (username ex_login_user)) =
      Some ?u"
    by (simp add: ex_login_user_def ex_fetch_foo_bar)
  have i: "u_id ?u \<noteq> 1"
    by (simp add: ex_users_def)
  have m: "cache_bcrypt ex_glob (u_pw_bcrypt ?u) = None"
    by (simp add: ex_glob_def)
  have c: "checkpw ex_env (md5_hexdigest ex_env (password ex_login_user)) (u_pw_bcrypt ?u)"
    by (simp add: ex_env_def ex_login_user_def ex_users_def)
  have g: "ex_glob_cached = r_glob (login_post ex_env ex_glob anonymous ex_login_user)"
    by (simp add: ex_first_login)
  have inj: "\<forall>d. checkpw ex_env d (u_pw_bcrypt ?u) \<longrightarrow>
      d = md5_hexdigest ex_env (password ex_login_user)"
    by (simp add: ex_env_def ex_login_user_def ex_users_def)
  have n: "username ex_login_wrong = username ex_login_user"
    by (simp add: ex_login_wrong_def ex_login_user_def)
  note t = login_post_cached_equals_uncached[OF a a u i m c g]
  from t have second: "login_post ex_env ex_glob_cached anonymous ex_login_user =
      (login_post ex_env ex_glob anonymous ex_login_user)\<lparr>r_checkpw := 0\<rparr>"
    by blast
  from t inj n have wrong:
    "r_response (login_post ex_env ex_glob_cached anonymous ex_login_wrong) =
       r_response (login_post ex_env ex_glob anonymous ex_login_wrong) \<and>
     r_checkpw (login_post ex_env ex_glob_cached anonymous ex_login_wrong) = 0"
    by blast
  from second wrong show ?thesis
    by (simp add: ex_first_login ex_uncached_wrong)
qed

subsection \<open>The profile route\<close>

text \<open>With both query values accepted, the route renders the page that the row, its
  privilege value and the viewer's session decide.\<close>

lemma profile_accepted:
  assumes "arg_accepted valid_mods (mods a)" and "arg_accepted valid_modes (mode a)"
  shows "profile E g s a user =
     (case sql_id_condition E user of
        None \<Rightarrow> Raise DatabaseError
      | Some cond \<Rightarrow>
         (case find cond (users (db g)) of
            None \<Rightarrow> page_404
          | Some u \<Rightarrow>
              if u_priv u < 3 \<and> authenticated s = None then page_404
              else if u_priv u < 3
              then (case user_data s of
                      None \<Rightarrow> Raise KeyError
                    | Some ud \<Rightarrow>
                        if ud_priv ud AND Privileges_Staff E = 0 then page_404
                        else page_profile u a)
              else page_profile u a))"
  using assms
  by (auto simp: profile_def arg_accepted_def arg_value_def page_404_def page_profile_def
      profile_columns_def split: option.splits)

text \<open>A request with the query value \<^verbatim>\<open>mods=zz\<close> is answered with the byte payload,
  for an id that no row has and for the banned account alike; so is a staff viewer's
  request with \<^verbatim>\<open>mode=osu\<close> for the banned account.\<close>

theorem profile_missing_account_bad_mods:
  "99 \<notin> set (map u_id (users (db ex_glob))) \<and>
   profile ex_env ex_glob anonymous ex_args_bad_mods ''99'' =
     Payload ''invalid mods! (vn, rx, ap)'' \<and>
   u_priv (ex_users ! 2) = 2 \<and>
   profile ex_env ex_glob anonymous ex_args_bad_mods ''4'' =
     Payload ''invalid mods! (vn, rx, ap)'' \<and>
   profile ex_env ex_glob ex_staff ex_args_bad_mode ''4'' =
     Payload ''invalid mode! (std, taiko, catch, mania)''"
  by (simp add: profile_def ex_args_bad_mods_def ex_args_bad_mode_def valid_mods_def
      valid_modes_def ex_glob_def ex_users_def)

text \<open>C8, amended. For a profile request whose \<^verbatim>\<open>mode\<close> and \<^verbatim>\<open>mods\<close> query values
  are each absent, empty or in their enumeration, and whose lookup the store accepts: when
  no row is found the route renders the not-found page; when the row found has a
  privilege value below 3, the route renders the not-found page for a session without the
  key \<^verbatim>\<open>authenticated\<close> and for an authenticated session whose user data has none of
  the staff bits, and the profile page for an authenticated session whose user data has a
  staff bit.\<close>

theorem profile_visibility:
  assumes "arg_accepted valid_mods (mods a)" and "arg_accepted valid_modes (mode a)"
    and "sql_id_condition E user = Some cond"
  shows "(find cond (users (db g)) = None \<longrightarrow> profile E g s a user = page_404) \<and>
         (\<forall>u. find cond (users (db g)) = Some u \<and> u_priv u < 3 \<longrightarrow>
            (authenticated s = None \<longrightarrow> profile E g s a user = page_404) \<and>
            (\<forall>ud. authenticated s \<noteq> None \<and> user_data s = Some ud \<longrightarrow>
               profile E g s a user =
                 (if ud_priv ud AND Privileges_Staff E = 0 then page_404
                  else page_profile u a)))"
  using assms(3) by (simp add: profile_accepted[OF assms(1,2)])

lemma ex_find_4: "find (\<lambda>u. u_id u = 4) (users (db ex_glob)) = Some (ex_users ! 2)"
  by (simp add: ex_glob_def ex_users_def)

lemma ex_find_99: "find (\<lambda>u. u_id u = 99) (users (db ex_glob)) = None"
  by (simp add: ex_glob_def ex_users_def)

theorem profile_visibility_witness:
  "u_priv (ex_users ! 2) = 2 \<and>
   profile ex_env ex_glob anonymous ex_args_default ''99'' = page_404 \<and>
   profile ex_env ex_glob anonymous ex_args_default ''4'' = page_404 \<and>
   profile ex_env ex_glob ex_player ex_args_default ''4'' = page_404 \<and>
   profile ex_env ex_glob ex_staff ex_args_default ''4'' =
     Render_template ''profile.html''
       [(''user'', Row \<lparr>p_name = ''Banned'', p_id = 4, p_priv = 2, p_country = ''xx''\<rparr>),
        (''mode'', Str ''std''), (''mods'', Str ''vn'')]"
proof -
  have m: "arg_accepted valid_mods (mods ex_args_default)"
    and n: "arg_accepted valid_modes (mode ex_args_default)"
    by (simp_all add: arg_accepted_def ex_args_default_def)
  have c4: "sql_id_condition ex_env ''4'' = Some (\<lambda>u. u_id u = 4)"
    and c99: "sql_id_condition ex_env ''99'' = Some (\<lambda>u. u_id u = 99)"
    by (simp_all add: ex_env_def)
  have p: "u_priv (ex_users ! 2) = 2" "u_priv (ex_users ! 2) < 3"
    by (simp_all add: ex_users_def)
  have an: "authenticated anonymous = None"
    by (simp add: anonymous_def)
  have pl: "authenticated ex_player \<noteq> None \<and> user_data ex_player = Some (the (user_data ex_player))"
    by (simp add: ex_player_def)
  have st: "authenticated ex_staff \<noteq> None \<and> user_data ex_staff = Some (the (user_data ex_staff))"
    by (simp add: ex_staff_def)
  have sp: "ud_priv (the (user_data ex_player)) AND Privileges_Staff ex_env = 0"
    by (simp add: ex_player_def ex_env_def)
  have ss: "ud_priv (the (user_data ex_staff)) AND Privileges_Staff ex_env \<noteq> 0"
    by (simp add: ex_staff_def ex_env_def)
  from profile_visibility[OF m n c99, of ex_glob anonymous] ex_find_99
  have 1: "profile ex_env ex_glob anonymous ex_args_default ''99'' = page_404"
    by blast
  from profile_visibility[OF m n c4, of ex_glob anonymous] ex_find_4 p(2) an
  have 2: "profile ex_env ex_glob anonymous ex_args_default ''4'' = page_404"
    by blast
  from profile_visibility[OF m n c4, of ex_glob ex_player] ex_find_4 p(2) pl
  have "profile ex_env ex_glob ex_player ex_args_default ''4'' =
      (if ud_priv (the (user_data ex_player)) AND Privileges_Staff ex_env = 0 then page_404
       else page_profile (ex_users ! 2) ex_args_default)"
    by blast
  with sp have 3: "profile ex_env ex_glob ex_player ex_args_default ''4'' = page_404"
    by simp
  from profile_visibility[OF m n c4, of ex_glob ex_staff] ex_find_4 p(2) st
  have "profile ex_env ex_glob ex_staff ex_args_default ''4'' =
      (if ud_priv (the (user_data ex_staff)) AND Privileges_Staff ex_env = 0 then page_404
       else page_profile (ex_users ! 2) ex_args_default)"
    by blast
  with ss have 4: "profile ex_env ex_glob ex_staff ex_args_default ''4'' =
      page_profile (ex_users ! 2) ex_args_default"
    by simp
  have 5: "page_profile (ex_users ! 2) ex_args_default =
     Render_template ''profile.html''
       [(''user'', Row \<lparr>p_name = ''Banned'', p_id = 4, p_priv = 2, p_country = ''xx''\<rparr>),
        (''mode'', Str ''std''), (''mods'', Str ''vn'')]"
    by (simp add: page_profile_def profile_columns_def ex_users_def ex_args_default_def
        arg_value_def)
  from p(1) 1 2 3 4 5 show ?thesis
    by simp
qed

subsection \<open>Which routes answer with a raw payload\<close>

lemma profile_payload_iff:
  "is_payload (profile E g s a user) \<longleftrightarrow>
     \<not> (arg_accepted valid_mods (mods a) \<and> arg_accepted valid_modes (mode a))"
  by (auto simp: profile_def arg_accepted_def split: option.splits)

lemma login_post_no_payload: "\<not> is_payload (r_response (login_post E g s f))"
  by (simp add: login_post_def login_post_checked_def Let_def split: option.splits)

lemma register_post_no_payload:
  "\<not> is_payload (r_response (register_post E g s f remote_addr))"
  by (simp add: register_post_def Let_def pw_text_def split: option.splits)

lemma dispatch_payload:
  assumes "is_payload (dispatch E g s r)"
  shows "\<exists>a user. r = Profile a user"
  using assms
  by (cases r)
    (simp_all add: home_def settings_def leaderboard_nodata_def leaderboard_def login_def
      register_def logout_def docs_nodata_def docs_def discord_def login_post_no_payload
      register_post_no_payload split: option.splits sum.splits if_splits)

text \<open>A request with \<^verbatim>\<open>mods=\<close>, a value that is present and not one of the three
  mods, is served with the default \<^verbatim>\<open>vn\<close>.\<close>

theorem profile_empty_mods_no_payload:
  "mods ex_args_empty_mods = Some [] \<and> [] \<notin> valid_mods \<and>
   profile ex_env ex_glob anonymous ex_args_empty_mods ''3'' =
     Render_template ''profile.html''
       [(''user'', Row \<lparr>p_name = ''foo_bar'', p_id = 3, p_priv = 3, p_country = ''xx''\<rparr>),
        (''mode'', Str ''taiko''), (''mods'', Str ''vn'')] \<and>
   \<not> is_payload (profile ex_env ex_glob anonymous ex_args_empty_mods ''3'')"
  by (simp add: profile_def ex_args_empty_mods_def valid_mods_def valid_modes_def ex_env_def
      ex_glob_def ex_users_def profile_columns_def)

text \<open>C9, amended. A profile request whose \<^verbatim>\<open>mods\<close> value is present, not empty and
  outside the three mods is answered with the byte payload \<^verbatim>\<open>invalid mods! (vn, rx, ap)\<close>;
  one whose \<^verbatim>\<open>mods\<close> value is accepted and whose \<^verbatim>\<open>mode\<close> value is present, not
  empty and outside the four modes is answered with the byte payload
  \<^verbatim>\<open>invalid mode! (std, taiko, catch, mania)\<close>; the profile route answers with a
  payload in no other case, and no other route of the table ever answers with one.\<close>

theorem profile_invalid_query_payload:
  "(\<forall>v. mods a = Some v \<and> v \<noteq> [] \<and> v \<notin> valid_mods \<longrightarrow>
      profile E g s a user = Payload ''invalid mods! (vn, rx, ap)'') \<and>
   (\<forall>v. arg_accepted valid_mods (mods a) \<and> mode a = Some v \<and> v \<noteq> [] \<and> v \<notin> valid_modes \<longrightarrow>
      profile E g s a user = Payload ''invalid mode! (std, taiko, catch, mania)'') \<and>
   (is_payload (profile E g s a user) \<longleftrightarrow>
      \<not> (arg_accepted valid_mods (mods a) \<and> arg_accepted valid_modes (mode a))) \<and>
   (\<forall>r. is_payload (dispatch E g s r) \<longrightarrow> (\<exists>a' user'. r = Profile a' user'))"
proof (intro conjI allI impI)
  fix v
  assume "mods a = Some v \<and> v \<noteq> [] \<and> v \<notin> valid_mods"
  then show "profile E g s a user = Payload ''invalid mods! (vn, rx, ap)''"
    by (simp add: profile_def)
next
  fix v
  assume "arg_accepted valid_mods (mods a) \<and> mode a = Some v \<and> v \<noteq> [] \<and> v \<notin> valid_modes"
  then show "profile E g s a user = Payload ''invalid mode! (std, taiko, catch, mania)''"
    by (auto simp: profile_def arg_accepted_def split: option.splits)
next
  show "is_payload (profile E g s a user) \<longleftrightarrow>
      \<not> (arg_accepted valid_mods (mods a) \<and> arg_accepted valid_modes (mode a))"
    by (rule profile_payload_iff)
next
  fix r
  assume "is_payload (dispatch E g s r)"
  then show "\<exists>a' user'. r = Profile a' user'"
    by (rule dispatch_payload)
qed

theorem profile_invalid_query_payload_witness:
  "profile ex_env ex_glob anonymous ex_args_bad_mods ''3'' =
     Payload ''invalid mods! (vn, rx, ap)'' \<and>
   profile ex_env ex_glob anonymous ex_args_bad_mode ''3'' =
     Payload ''invalid mode! (std, taiko, catch, mania)'' \<and>
   \<not> is_payload (dispatch ex_env ex_glob anonymous (Login_post ex_login_wrong)) \<and>
   \<not> is_payload (dispatch ex_env ex_glob anonymous (Docs ''Rules''))"
proof -
  note t = profile_invalid_query_payload[of _ ex_env ex_glob anonymous "''3''"]
  have 1: "mods ex_args_bad_mods = Some ''zz'' \<and> ''zz'' \<noteq> [] \<and> ''zz'' \<notin> valid_mods"
    by (simp add: ex_args_bad_mods_def valid_mods_def)
  have 2: "arg_accepted valid_mods (mods ex_args_bad_mode) \<and>
      mode ex_args_bad_mode = Some ''osu'' \<and> ''osu'' \<noteq> [] \<and> ''osu'' \<notin> valid_modes"
    by (simp add: ex_args_bad_mode_def valid_mods_def valid_modes_def arg_accepted_def)
  from t[of ex_args_bad_mods] 1
  have a: "profile ex_env ex_glob anonymous ex_args_bad_mods ''3'' =
      Payload ''invalid mods! (vn, rx, ap)''"
    by blast
  from t[of ex_args_bad_mode] 2
  have b: "profile ex_env ex_glob anonymous ex_args_bad_mode ''3'' =
      Payload ''invalid mode! (std, taiko, catch, mania)''"
    by blast
  from t[of ex_args_default]
  have c: "\<not> is_payload (dispatch ex_env ex_glob anonymous (Login_post ex_login_wrong))"
    and d: "\<not> is_payload (dispatch ex_env ex_glob anonymous (Docs ''Rules''))"
    by blast+
  from a b c d show ?thesis
    by simp
qed

end
